theory Spec2Isabelle
  imports Complex_Main "HOL-Library.Word"
begin

section \<open>Numbers and the audio buffer\<close>

text \<open>
  The program is TypeScript: every \<^verbatim>\<open>number\<close> is an IEEE double. The embedding reads
  a finite number as a \<^typ>\<open>real\<close> (sample values, decibels, frequencies) and a count or
  an index as a \<^typ>\<open>nat\<close> or an \<^typ>\<open>int\<close>; rounding of the double arithmetic is not
  modelled, and NaN and the infinities are written out as explicit branches where the
  source can produce them.
\<close>

text \<open>\<^verbatim>\<open>x || d\<close> on numbers: the default replaces a zero.\<close>

definition js_or :: "real \<Rightarrow> real \<Rightarrow> real" where
  "js_or x d = (if x = 0 then d else x)"

text \<open>\<^verbatim>\<open>Math.round\<close>: the nearest integer, a tie going up.\<close>

definition Math_round :: "real \<Rightarrow> int" where
  "Math_round x = \<lfloor>x + 1 / 2\<rfloor>"

text \<open>
  The Web Audio \<^verbatim>\<open>AudioBuffer\<close>: \<^verbatim>\<open>numberOfChannels\<close> is the number of channel
  arrays and \<^verbatim>\<open>getChannelData(i)\<close> is the i-th of them.
\<close>

record AudioBuffer =
  sampleRate :: nat
  buf_length :: nat
  duration :: real
  channelData :: "real list list"

definition numberOfChannels :: "AudioBuffer \<Rightarrow> nat" where
  "numberOfChannels b = length (channelData b)"

text \<open>What the platform guarantees of a decoded or rendered buffer.\<close>

definition wf_buffer :: "AudioBuffer \<Rightarrow> bool" where
  "wf_buffer b \<longleftrightarrow>
     0 < sampleRate b \<and> channelData b \<noteq> [] \<and>
     list_all (\<lambda>c. length c = buf_length b) (channelData b) \<and>
     duration b = real (buf_length b) / real (sampleRate b)"

section \<open>Track statistics and the production score (audioUtils.ts)\<close>

record AudioStats =
  st_duration :: real
  st_sampleRate :: real
  st_numberOfChannels :: nat
  rms :: real
  peak :: real
  crestFactor :: real
  lowEnergy :: real
  midEnergy :: real
  highEnergy :: real
  subBassEnergy :: real
  stereoCorrelation :: real

text \<open>
  \<^verbatim>\<open>calculateAudioStats\<close>. The window: at most 15 seconds, centred on the middle of
  the buffer.
\<close>

definition stats_sampleSize :: "AudioBuffer \<Rightarrow> int" where
  "stats_sampleSize b = \<lfloor>min (duration b) 15 * real (sampleRate b)\<rfloor>"

definition stats_actualStart :: "AudioBuffer \<Rightarrow> int" where
  "stats_actualStart b =
     max 0 \<lfloor>real (buf_length b) / 2 - real_of_int (stats_sampleSize b) / 2\<rfloor>"

definition stats_stop :: "AudioBuffer \<Rightarrow> int" where
  "stats_stop b = min (stats_actualStart b + stats_sampleSize b) (int (buf_length b))"

text \<open>The running sums of the loop.\<close>

record stats_acc =
  sumSquares :: real
  acc_peak :: real
  stereoSum :: real
  lowSum :: real
  highSum :: real
  subSum :: real

text \<open>One pass of the loop body at index \<open>i\<close>.\<close>

definition stats_step :: "real list \<Rightarrow> real list \<Rightarrow> nat \<Rightarrow> nat \<Rightarrow> stats_acc \<Rightarrow> stats_acc" where
  "stats_step left right actualStart i a =
     (let sL = left ! i;
          sR = right ! i;
          mid = (sL + sR) / 2;
          absMid = \<bar>mid\<bar>;
          a = a\<lparr>acc_peak := (if absMid > acc_peak a then absMid else acc_peak a)\<rparr>;
          a = a\<lparr>sumSquares := sumSquares a + mid * mid\<rparr>;
          a = a\<lparr>stereoSum := stereoSum a + sL * sR\<rparr>
      in if i > actualStart then
           let diff = \<bar>mid - left ! (i - 1)\<bar>;
               smooth = (mid + left ! (i - 1)) / 2;
               a = a\<lparr>highSum := highSum a + diff * diff\<rparr>;
               a = a\<lparr>lowSum := lowSum a + smooth * smooth\<rparr>
           in if i mod 10 = 0
              then a\<lparr>subSum := subSum a + (if \<bar>mid\<bar> > 0.1 then 1 else 0)\<rparr>
              else a
         else a)"

function stats_loop ::
  "real list \<Rightarrow> real list \<Rightarrow> nat \<Rightarrow> int \<Rightarrow> nat \<Rightarrow> stats_acc \<Rightarrow> stats_acc" where
  "stats_loop left right actualStart stop i a =
     (if int i < stop
      then stats_loop left right actualStart stop (i + 1) (stats_step left right actualStart i a)
      else a)"
  by pat_completeness auto
termination
  by (relation "measure (\<lambda>(left, right, actualStart, stop, i, a). nat (stop - int i))") auto

text \<open>
  \<^verbatim>\<open>getChannelData(0)\<close> raises on a buffer with no channel: the result is \<open>None\<close>
  then. A mono buffer is read as left and right alike. The reads \<open>left ! i\<close> are in
  range for a well-formed buffer, since the loop stops at \<open>buf_length\<close>.
\<close>

definition calculateAudioStats :: "AudioBuffer \<Rightarrow> AudioStats option" where
  "calculateAudioStats b =
     (case channelData b of
        [] \<Rightarrow> None
      | left # rest \<Rightarrow>
          let right = (if numberOfChannels b > 1 then hd rest else left);
              sampleSize = stats_sampleSize b;
              actualStart = stats_actualStart b;
              a = stats_loop left right (nat actualStart) (stats_stop b) (nat actualStart)
                    \<lparr>sumSquares = 0, acc_peak = 0, stereoSum = 0,
                     lowSum = 0, highSum = 0, subSum = 0\<rparr>;
              rms = sqrt (sumSquares a / real_of_int (max 1 sampleSize));
              rmsDb = 20 * log 10 (js_or rms 0.000001);
              peakDb = 20 * log 10 (js_or (acc_peak a) 0.000001);
              correlation = stereoSum a / js_or (sumSquares a) 1;
              totalSpec = lowSum a + highSum a
          in Some \<lparr>st_duration = duration b,
                   st_sampleRate = real (sampleRate b),
                   st_numberOfChannels = numberOfChannels b,
                   rms = rmsDb,
                   peak = peakDb,
                   crestFactor = peakDb - rmsDb,
                   lowEnergy = lowSum a / js_or totalSpec 1,
                   midEnergy = 0.5,
                   highEnergy = highSum a / js_or totalSpec 1,
                   subBassEnergy = subSum a / (real_of_int (max 1 sampleSize) / 10),
                   stereoCorrelation = max (- 1) (min 1 correlation)\<rparr>)"

text \<open>\<^verbatim>\<open>calculateProductionScore\<close>: the score starts at 100 and loses the penalties in turn.\<close>

definition calculateProductionScore :: "AudioStats \<Rightarrow> int" where
  "calculateProductionScore stats =
     (let score = (100 :: real);
          score = (if peak stats > - 0.1 then score - 30 else score);
          score = (if crestFactor stats < 4 then score - 20 else score);
          score = (if crestFactor stats > 15 then score - 15 else score);
          score = (if stereoCorrelation stats < 0 then score - 40 else score);
          score = (if stereoCorrelation stats > 0.95 then score - 10 else score)
      in max 0 (min 100 \<lfloor>score\<rfloor>))"

section \<open>Production score: the penalty rubric\<close>

text \<open>
  C3. For every statistics record the score is 100 minus the sum of the penalties that
  apply (30 for a peak above -0.1, 20 for a crest factor below 4, 15 for one above 15,
  40 for a negative stereo correlation, 10 for one above 0.95), clamped to 0..100; with
  peak -0.05, crest factor 3 and correlation -0.2 the score is 10.
\<close>

theorem calculateProductionScore_rubric:
  "calculateProductionScore stats =
     max 0 (min 100
       (100 - ((if peak stats > - 0.1 then 30 else 0)
             + (if crestFactor stats < 4 then 20 else 0)
             + (if crestFactor stats > 15 then 15 else 0)
             + (if stereoCorrelation stats < 0 then 40 else 0)
             + (if stereoCorrelation stats > 0.95 then 10 else 0))))
   \<and> calculateProductionScore
         (stats\<lparr>peak := - 0.05, crestFactor := 3, stereoCorrelation := - 0.2\<rparr>) = 10"
  by (simp add: calculateProductionScore_def Let_def)

end
